theory Spec2Isabelle
  imports
    Complex_Main
    "HOL-Library.Word"
    "HOL-Library.Char_ord"
    "HOL-Library.List_Lexorder"
    "HOL-Library.Sublist"
    "HOL-Library.Multiset"
    "HOL-Library.AList"
begin

unbundle bit_operations_syntax

section \<open>Python values and exceptions\<close>

text \<open>
  The embedding follows \<^verbatim>\<open>file_server.py\<close> under Python 3 on a POSIX system
  (\<^verbatim>\<open>os.path\<close> is \<^verbatim>\<open>posixpath\<close>, the separator is \<^verbatim>\<open>/\<close>). Python's unbounded
  integers are \<^typ>\<open>int\<close>, text is \<^typ>\<open>string\<close>, and an exception that leaves a
  function is the \<open>Inl\<close> branch of a sum. An exception that leaves a view function
  is what Flask answers with status 500.
\<close>

datatype error =
    TypeError
  | ValueError
  | AssertionError
  | AttributeError
  | KeyError
  | OSError
  | OverflowError

text \<open>
  The values that reach \<^verbatim>\<open>int()\<close>, \<^verbatim>\<open>sorted\<close>'s comparison and \<^verbatim>\<open>+=\<close>:
  \<^verbatim>\<open>None\<close>, text, integers, floats (a finite float is the real number it
  denotes), the integer tuple an \<^verbatim>\<open>os.stat_result\<close> compares as, and
  \<open>PObject\<close> for every other object (a bound method, a type, a dict), none of which
  defines an order.
\<close>

datatype pyval =
    PNone
  | PStr string
  | PInt int
  | PFloat real
  | PTuple "int list"
  | PObject

section \<open>Pagination\<close>

text \<open>
  \<^verbatim>\<open>xs[start:end]\<close> for integer bounds: a negative bound counts from the end, and
  both bounds are clamped to the list, so a slice never raises.
\<close>

definition slice_bound :: "nat \<Rightarrow> int \<Rightarrow> nat" where
  "slice_bound n i = (if i < 0 then nat (max (i + int n) 0) else min (nat i) n)"

definition py_slice :: "'a list \<Rightarrow> int \<Rightarrow> int \<Rightarrow> 'a list" where
  "py_slice xs start end' =
     (let lo = slice_bound (length xs) start;
          hi = slice_bound (length xs) end'
      in take (hi - lo) (drop lo xs))"

text \<open>
  \<^verbatim>\<open>int(x)\<close> for the arguments \<^verbatim>\<open>paginate\<close> is called with. The view passes
  the integers that \<^verbatim>\<open>get_page\<close> and \<^verbatim>\<open>get_page_size\<close> return, on which
  \<^verbatim>\<open>int\<close> is the identity; \<^verbatim>\<open>None\<close> and objects raise \<^verbatim>\<open>TypeError\<close>, a
  float is truncated towards zero, and text is parsed by \<open>int_of_text\<close> below.
\<close>

definition is_digit :: "char \<Rightarrow> bool" where
  "is_digit c = (c \<in> set ''0123456789'')"

definition digit_val :: "char \<Rightarrow> int" where
  "digit_val c = int (of_char c) - 48"

text \<open>The value of a string of decimal digits, most significant digit first.\<close>

definition int_of_digits :: "string \<Rightarrow> int" where
  "int_of_digits ds = foldl (\<lambda>acc c. 10 * acc + digit_val c) 0 ds"

text \<open>
  \<^verbatim>\<open>str.isspace\<close> on the characters below 256, the whitespace at which
  \<^verbatim>\<open>str.split()\<close> cuts.
\<close>

definition is_space :: "char \<Rightarrow> bool" where
  "is_space c =
     (let n = (of_char c :: nat)
      in (9 \<le> n \<and> n \<le> 13) \<or> (28 \<le> n \<and> n \<le> 32) \<or> n = 133 \<or> n = 160)"

text \<open>
  \<^verbatim>\<open>int(s)\<close> for text. Characters are those below 256, among which the decimal
  digits are \<^verbatim>\<open>0\<close> to \<^verbatim>\<open>9\<close>. The whitespace \<^verbatim>\<open>int\<close> drops from both ends
  is tab to carriage return (9 to 13), the space, and the two whitespace characters
  above 127 (133 and 160); the separators 28 to 31 are whitespace for
  \<^verbatim>\<open>str.isspace\<close> but not for \<^verbatim>\<open>int\<close>. One sign may lead, and
  the rest is decimal digits, where single underscores may stand between two digits.
  A text of more than \<open>int_max_str_digits\<close> digits is refused (the default limit
  of CPython 3.11 and later; leading zeros count, underscores and the sign do not).
  Anything else raises \<^verbatim>\<open>ValueError\<close>, as the refusal does (\<open>None\<close> here).
\<close>

definition int_space :: "char \<Rightarrow> bool" where
  "int_space c =
     (let n = (of_char c :: nat)
      in (9 \<le> n \<and> n \<le> 13) \<or> n = 32 \<or> n = 133 \<or> n = 160)"

definition strip_space :: "string \<Rightarrow> string" where
  "strip_space s = rev (dropWhile int_space (rev (dropWhile int_space s)))"

fun underscores_ok :: "string \<Rightarrow> bool" where
  "underscores_ok [] = False"
| "underscores_ok [c] = is_digit c"
| "underscores_ok (c # d # cs) =
     (if is_digit c then
        (if d = CHR ''_'' then underscores_ok cs else underscores_ok (d # cs))
      else False)"

definition int_max_str_digits :: nat where
  "int_max_str_digits = 4300"

definition int_of_unsigned :: "string \<Rightarrow> int option" where
  "int_of_unsigned s =
     (if underscores_ok s \<and> length (filter is_digit s) \<le> int_max_str_digits
      then Some (int_of_digits (filter is_digit s)) else None)"

definition int_of_text :: "string \<Rightarrow> int option" where
  "int_of_text s =
     (case strip_space s of
        [] \<Rightarrow> None
      | c # cs \<Rightarrow>
          if c = CHR ''-'' then map_option uminus (int_of_unsigned cs)
          else if c = CHR ''+'' then int_of_unsigned cs
          else int_of_unsigned (c # cs))"

definition py_int :: "pyval \<Rightarrow> error + int" where
  "py_int v =
     (case v of
        PInt n \<Rightarrow> Inr n
      | PFloat r \<Rightarrow> Inr (if 0 \<le> r then \<lfloor>r\<rfloor> else \<lceil>r\<rceil>)
      | PStr s \<Rightarrow> (case int_of_text s of None \<Rightarrow> Inl ValueError | Some n \<Rightarrow> Inr n)
      | _ \<Rightarrow> Inl TypeError)"

text \<open>
  \<^verbatim>\<open>paginate(contents, page, page_size=100)\<close>: when either conversion raises, the
  whole collection is returned; otherwise the slice from \<open>page * page_size\<close>.
\<close>

definition paginate :: "'a list \<Rightarrow> pyval \<Rightarrow> pyval \<Rightarrow> 'a list" where
  "paginate contents page page_size =
     (case py_int page of
        Inl _ \<Rightarrow> contents
      | Inr p \<Rightarrow>
          (case py_int page_size of
             Inl _ \<Rightarrow> contents
           | Inr s \<Rightarrow>
               (let start = p * s;
                    end' = start + s
                in py_slice contents start end')))"

section \<open>Paths\<close>

text \<open>
  \<^verbatim>\<open>os.path.join(a, b)\<close>: a second component that starts with the separator
  replaces the first; otherwise the two are put together with one separator between
  them, unless the first is empty or already ends with one. Nothing is normalised:
  a \<^verbatim>\<open>..\<close> in \<open>b\<close> stays in the result.
\<close>

definition os_path_join :: "string \<Rightarrow> string \<Rightarrow> string" where
  "os_path_join a b =
     (if b \<noteq> [] \<and> hd b = CHR ''/'' then b
      else if a = [] \<or> last a = CHR ''/'' then a @ b
      else a @ ''/'' @ b)"

text \<open>\<^verbatim>\<open>os.path.basename(p)\<close>: what follows the last separator.\<close>

definition basename :: "string \<Rightarrow> string" where
  "basename p = rev (takeWhile (\<lambda>c. c \<noteq> CHR ''/'') (rev p))"

text \<open>
  \<open>split_on P s\<close> cuts \<open>s\<close> at every character that satisfies \<open>P\<close> and keeps empty
  fields, as \<^verbatim>\<open>s.split(sep)\<close> does for a one-character separator.
\<close>

fun split_on :: "(char \<Rightarrow> bool) \<Rightarrow> string \<Rightarrow> string list" where
  "split_on P [] = [[]]"
| "split_on P (c # cs) =
     (if P c then [] # split_on P cs
      else (case split_on P cs of
              [] \<Rightarrow> [[c]]
            | w # ws \<Rightarrow> (c # w) # ws))"

definition segments :: "string \<Rightarrow> string list" where
  "segments p = split_on (\<lambda>c. c = CHR ''/'') p"

text \<open>
  Where a path leads: the operating system walks its segments from the top directory,
  skips an empty segment and \<^verbatim>\<open>.\<close>, steps to the parent on \<^verbatim>\<open>..\<close> (the top
  directory is its own parent) and steps down on any other name. \<open>resolve p\<close> is the
  list of directory names from the top to the place reached, symbolic links aside.
  A path \<open>q\<close> is within \<open>r\<close> when the place \<open>r\<close> leads to is on the way to the place
  \<open>q\<close> leads to.
\<close>

fun descend :: "string list \<Rightarrow> string list \<Rightarrow> string list" where
  "descend cur [] = cur"
| "descend cur (s # ss) =
     (if s = [] \<or> s = ''.'' then descend cur ss
      else if s = ''..'' then descend (butlast cur) ss
      else descend (cur @ [s]) ss)"

definition resolve :: "string \<Rightarrow> string list" where
  "resolve p = descend [] (segments p)"

definition stays_within :: "string \<Rightarrow> string \<Rightarrow> bool" where
  "stays_within r q = prefix (resolve r) (resolve q)"

text \<open>
  A request path that never climbs above its starting directory: at every \<^verbatim>\<open>..\<close>
  at least one earlier name is left to undo. \<open>d\<close> counts the names below the start.
\<close>

fun stays_below :: "nat \<Rightarrow> string list \<Rightarrow> bool" where
  "stays_below d [] = True"
| "stays_below d (s # ss) =
     (if s = [] \<or> s = ''.'' then stays_below d ss
      else if s = ''..'' then (0 < d \<and> stays_below (d - 1) ss)
      else stays_below (Suc d) ss)"

definition relative_inside :: "string \<Rightarrow> bool" where
  "relative_inside p =
     ((p = [] \<or> hd p \<noteq> CHR ''/'') \<and> stays_below 0 (segments p))"

section \<open>File metadata and entries\<close>

text \<open>
  An \<^verbatim>\<open>os.stat_result\<close>: the ten integers it holds as a tuple, in the tuple's
  order, and the float \<^verbatim>\<open>st_mtime\<close>.
\<close>

record stat_result =
  st_mode :: int
  st_ino :: int
  st_dev :: int
  st_nlink :: int
  st_uid :: int
  st_gid :: int
  st_size :: int
  st_atime_sec :: int
  st_mtime_sec :: int
  st_ctime_sec :: int
  st_mtime :: real

definition stat_tuple :: "stat_result \<Rightarrow> int list" where
  "stat_tuple s =
     [st_mode s, st_ino s, st_dev s, st_nlink s, st_uid s, st_gid s, st_size s,
      st_atime_sec s, st_mtime_sec s, st_ctime_sec s]"

text \<open>\<^verbatim>\<open>stat.S_ISDIR\<close> and \<^verbatim>\<open>stat.S_ISLNK\<close>: the file-type bits of the mode.\<close>

definition S_IFMT :: "int \<Rightarrow> int" where
  "S_IFMT mode = mode AND 61440"

definition S_ISDIR :: "int \<Rightarrow> bool" where
  "S_ISDIR mode = (S_IFMT mode = 16384)"

definition S_ISLNK :: "int \<Rightarrow> bool" where
  "S_ISLNK mode = (S_IFMT mode = 40960)"

type_synonym byte = "8 word"

text \<open>
  What the program sees of its surroundings during one request. \<open>root_dir\<close> is the
  module variable \<^verbatim>\<open>root\<close>. \<open>os_stat p n\<close> is the outcome of the \<open>n\<close>-th call of
  \<^verbatim>\<open>os.stat\<close> that an entry object makes for \<open>p\<close> (\<open>None\<close>: it raised), so a second
  attempt may succeed where the first failed. \<open>listdir\<close> and \<open>file_bytes\<close> are
  \<open>None\<close> where listing or opening raises \<^verbatim>\<open>OSError\<close>. \<open>walk\<close> is the sequence
  \<^verbatim>\<open>os.walk\<close> yields. \<open>guess_type\<close> is the first component of
  \<^verbatim>\<open>mimetypes.guess_type\<close>. \<open>object_attrs\<close> holds the attributes every object
  has from \<^verbatim>\<open>object\<close> (such as \<^verbatim>\<open>__module__\<close> and \<^verbatim>\<open>__doc__\<close>).
  \<open>nfkd_ascii\<close> is the ASCII text left of the compatibility decomposition of a
  string. \<open>save_error p\<close> is the message of the exception that writing to \<open>p\<close>
  raises, \<open>None\<close> where the write goes through.
\<close>

record env =
  root_dir :: string
  isdir :: "string \<Rightarrow> bool"
  isfile :: "string \<Rightarrow> bool"
  listdir :: "string \<Rightarrow> string list option"
  walk :: "string \<Rightarrow> (string \<times> string list \<times> string list) list"
  os_stat :: "string \<Rightarrow> nat \<Rightarrow> stat_result option"
  file_bytes :: "string \<Rightarrow> byte list option"
  guess_type :: "string \<Rightarrow> string option"
  object_attrs :: "string \<Rightarrow> pyval option"
  nfkd_ascii :: "string \<Rightarrow> string"
  save_error :: "string \<Rightarrow> string option"

text \<open>
  \<^verbatim>\<open>class File\<close>. The cached property \<^verbatim>\<open>stat\<close> is computed once per object, so
  the record holds its value: the result of \<^verbatim>\<open>os.stat\<close>, of a second attempt when
  the first raised, and \<open>None\<close> when both raised.
\<close>

record File =
  path :: string
  name :: string
  stat :: "stat_result option"

definition File_stat :: "env \<Rightarrow> string \<Rightarrow> stat_result option" where
  "File_stat e full_path =
     (case os_stat e full_path 0 of
        Some s \<Rightarrow> Some s
      | None \<Rightarrow> (case os_stat e full_path 1 of Some s \<Rightarrow> Some s | None \<Rightarrow> None))"

definition File_init :: "env \<Rightarrow> string \<Rightarrow> string \<Rightarrow> File" where
  "File_init e full_path base_path =
     \<lparr>path = full_path, name = basename full_path, stat = File_stat e full_path\<rparr>"

text \<open>
  The property \<^verbatim>\<open>type\<close> reads \<^verbatim>\<open>self.stat.st_mode\<close>, which raises
  \<^verbatim>\<open>AttributeError\<close> when \<^verbatim>\<open>stat\<close> is \<^verbatim>\<open>None\<close>; \<^verbatim>\<open>mtime\<close> and \<^verbatim>\<open>size\<close>
  are \<^verbatim>\<open>self.stat and ...\<close>, which is \<^verbatim>\<open>None\<close> then.
\<close>

definition File_type :: "File \<Rightarrow> error + string" where
  "File_type f =
     (case stat f of
        None \<Rightarrow> Inl AttributeError
      | Some s \<Rightarrow>
          if st_mode s \<noteq> 0 \<and> (S_ISDIR (st_mode s) \<or> S_ISLNK (st_mode s))
          then Inr ''dir''
          else Inr ''file'')"

definition File_mtime :: "File \<Rightarrow> pyval" where
  "File_mtime f = (case stat f of None \<Rightarrow> PNone | Some s \<Rightarrow> PFloat (st_mtime s))"

definition File_size :: "File \<Rightarrow> pyval" where
  "File_size f = (case stat f of None \<Rightarrow> PNone | Some s \<Rightarrow> PInt (st_size s))"

definition ignored :: "string list" where
  "ignored =
     [''.bzr'', ''$RECYCLE.BIN'', ''.DAV'', ''.DS_Store'', ''.git'', ''.hg'',
      ''.htaccess'', ''.htpasswd'', ''.Spotlight-V100'', ''.svn'', ''__MACOSX'',
      ''ehthumbs.db'', ''robots.txt'', ''Thumbs.db'', ''thumbs.tps'']"

definition File_ignored :: "File \<Rightarrow> bool" where
  "File_ignored f = (name f \<in> set ignored)"

definition File_hidden :: "File \<Rightarrow> bool" where
  "File_hidden f = (case name f of [] \<Rightarrow> False | c # _ \<Rightarrow> c = CHR ''.'')"

section \<open>Sorting\<close>

text \<open>
  \<^verbatim>\<open>x < y\<close> on Python values. Text is compared character by character, integers
  and floats by value, tuples of integers position by position. Every other pair,
  \<^verbatim>\<open>None < None\<close> among them, raises \<^verbatim>\<open>TypeError\<close>.
\<close>

fun py_lt :: "pyval \<Rightarrow> pyval \<Rightarrow> error + bool" where
  "py_lt (PStr a) (PStr b) = Inr (a < b)"
| "py_lt (PInt a) (PInt b) = Inr (a < b)"
| "py_lt (PInt a) (PFloat b) = Inr (real_of_int a < b)"
| "py_lt (PFloat a) (PInt b) = Inr (a < real_of_int b)"
| "py_lt (PFloat a) (PFloat b) = Inr (a < b)"
| "py_lt (PTuple a) (PTuple b) = Inr (a < b)"
| "py_lt _ _ = Inl TypeError"

text \<open>
  \<^verbatim>\<open>sorted(xs, key=k, reverse=r)\<close>. The built-in is a stable sort that compares
  keys with \<^verbatim>\<open><\<close> only and lets an exception of the comparison through. It is
  modelled by a stable insertion sort on the same comparison: \<open>py_insort\<close> puts an
  entry before the first entry of a sorted list whose key is not smaller. The result
  of a stable sort does not depend on the algorithm; which pairs are compared does, but
  with two or more entries every entry is compared with another one at least once by
  either algorithm, and the keys of one attribute either all compare or all raise with
  \<^verbatim>\<open>None\<close>. With \<^verbatim>\<open>reverse=True\<close> the list is reversed, sorted, and reversed
  again, which keeps entries with equal keys in their input order.
\<close>

fun py_insort :: "('a \<Rightarrow> pyval) \<Rightarrow> 'a \<Rightarrow> 'a list \<Rightarrow> error + 'a list" where
  "py_insort k x [] = Inr [x]"
| "py_insort k x (y # ys) =
     (case py_lt (k y) (k x) of
        Inl e \<Rightarrow> Inl e
      | Inr b \<Rightarrow>
          if b then (case py_insort k x ys of Inl e \<Rightarrow> Inl e | Inr zs \<Rightarrow> Inr (y # zs))
          else Inr (x # y # ys))"

fun py_sort :: "('a \<Rightarrow> pyval) \<Rightarrow> 'a list \<Rightarrow> error + 'a list" where
  "py_sort k [] = Inr []"
| "py_sort k (x # xs) =
     (case py_sort k xs of Inl e \<Rightarrow> Inl e | Inr ys \<Rightarrow> py_insort k x ys)"

definition py_sorted :: "('a \<Rightarrow> pyval) \<Rightarrow> bool \<Rightarrow> 'a list \<Rightarrow> error + 'a list" where
  "py_sorted k reverse xs =
     (if reverse then
        (case py_sort k (rev xs) of Inl e \<Rightarrow> Inl e | Inr ys \<Rightarrow> Inr (rev ys))
      else py_sort k xs)"

text \<open>
  \<^verbatim>\<open>getattr(f, key, None)\<close> on an entry. The class gives it \<^verbatim>\<open>path\<close>, \<^verbatim>\<open>name\<close>,
  \<^verbatim>\<open>stat\<close>, \<^verbatim>\<open>type\<close>, \<^verbatim>\<open>mtime\<close>, \<^verbatim>\<open>size\<close> and three methods; an
  \<^verbatim>\<open>AttributeError\<close> inside the property \<^verbatim>\<open>type\<close> also yields the default. A name
  the class does not define is looked up among the attributes every object has, and
  is \<^verbatim>\<open>None\<close> when it is not there either.
\<close>

definition getattr_File :: "env \<Rightarrow> File \<Rightarrow> string \<Rightarrow> pyval" where
  "getattr_File e f key =
     (if key = ''path'' then PStr (path f)
      else if key = ''name'' then PStr (name f)
      else if key = ''stat'' then
        (case stat f of None \<Rightarrow> PNone | Some s \<Rightarrow> PTuple (stat_tuple s))
      else if key = ''type'' then
        (case File_type f of Inl _ \<Rightarrow> PNone | Inr t \<Rightarrow> PStr t)
      else if key = ''mtime'' then File_mtime f
      else if key = ''size'' then File_size f
      else if key \<in> set [''get_absolute_url'', ''ignored'', ''hidden''] then PObject
      else (case object_attrs e key of None \<Rightarrow> PNone | Some v \<Rightarrow> v))"

text \<open>
  \<^verbatim>\<open>sorted_contents(contents, sorting)\<close>. \<open>sorting\<close> is the query argument,
  \<open>None\<close> when the request has none.
\<close>

definition sorted_contents :: "env \<Rightarrow> File list \<Rightarrow> string option \<Rightarrow> error + File list" where
  "sorted_contents e contents sorting =
     (case sorting of
        None \<Rightarrow> Inr contents
      | Some s \<Rightarrow>
          if s = [] then Inr contents
          else
            (let reverse = (hd s = CHR ''-'');
                 key = dropWhile (\<lambda>c. c = CHR ''-'') s
             in py_sorted (\<lambda>f. getattr_File e f key) reverse contents))"

section \<open>Enumeration and totals\<close>

text \<open>
  \<^verbatim>\<open>iter_files\<close> and \<^verbatim>\<open>iter_recursive_files\<close>, as the lists they yield.
  \<^verbatim>\<open>os.listdir\<close> may raise; \<^verbatim>\<open>os.walk\<close> skips what it cannot list.
\<close>

definition iter_files :: "env \<Rightarrow> string \<Rightarrow> error + File list" where
  "iter_files e fpath =
     (case listdir e fpath of
        None \<Rightarrow> Inl OSError
      | Some names \<Rightarrow> Inr (map (\<lambda>filename. File_init e (os_path_join fpath filename) fpath) names))"

definition iter_recursive_files :: "env \<Rightarrow> string \<Rightarrow> File list" where
  "iter_recursive_files e fpath =
     concat (map (\<lambda>(r, ds, fs).
                    map (\<lambda>filename.
                           File_init e (os_path_join (os_path_join fpath r) filename) fpath) fs)
                 (walk e fpath))"

text \<open>
  The dict \<^verbatim>\<open>total\<close> is a list of pairs in insertion order. One round of the loop
  body after the three \<^verbatim>\<open>continue\<close> tests: \<^verbatim>\<open>total[file.type] += 1\<close> and
  \<^verbatim>\<open>total["size"] += file.size\<close>, with the exceptions a missing key, a missing
  \<^verbatim>\<open>stat\<close> or a size that is not a number would raise.
\<close>

type_synonym totals = "(string \<times> int) list"

definition total_init :: totals where
  "total_init = [(''size'', 0), (''dir'', 0), (''file'', 0)]"

definition count_entry :: "totals \<Rightarrow> File \<Rightarrow> error + totals" where
  "count_entry tot f =
     (case File_type f of
        Inl er \<Rightarrow> Inl er
      | Inr t \<Rightarrow>
          (case map_of tot t of
             None \<Rightarrow> Inl KeyError
           | Some n \<Rightarrow>
               (let tot1 = AList.update t (n + 1) tot
                in (case map_of tot1 ''size'' of
                      None \<Rightarrow> Inl KeyError
                    | Some sz \<Rightarrow>
                        (case File_size f of
                           PInt k \<Rightarrow> Inr (AList.update ''size'' (sz + k) tot1)
                         | _ \<Rightarrow> Inl TypeError)))))"

text \<open>
  The loop \<^verbatim>\<open>for file in iterator\<close> of the directory branch, on the entries the
  iterator yields, with the lists \<^verbatim>\<open>contents\<close> and \<^verbatim>\<open>total\<close> it updates.
\<close>

fun collect :: "string \<Rightarrow> File list \<Rightarrow> File list \<times> totals \<Rightarrow> error + File list \<times> totals" where
  "collect hide_dotfile [] acc = Inr acc"
| "collect hide_dotfile (f # fs) (contents, tot) =
     (if File_ignored f then collect hide_dotfile fs (contents, tot)
      else if hide_dotfile = ''yes'' \<and> File_hidden f then collect hide_dotfile fs (contents, tot)
      else if stat f = None then collect hide_dotfile fs (contents, tot)
      else (case count_entry tot f of
              Inl er \<Rightarrow> Inl er
            | Inr tot' \<Rightarrow> collect hide_dotfile fs (contents @ [f], tot')))"

section \<open>Requests and responses\<close>

text \<open>
  A request as the views read it: \<^verbatim>\<open>request.args\<close>, \<^verbatim>\<open>request.cookies\<close> and
  \<^verbatim>\<open>request.headers\<close> with their \<^verbatim>\<open>get\<close>, and the uploads of
  \<^verbatim>\<open>request.files.getlist("files[]")\<close>.
\<close>

record upload =
  filename :: string
  stream :: "byte list"

record request =
  args :: "string \<Rightarrow> string option"
  cookies :: "string \<Rightarrow> string option"
  headers :: "string \<Rightarrow> string option"
  files :: "upload list"

text \<open>
  What the external renderer receives from \<^verbatim>\<open>render_template("index.html", ...)\<close>.
\<close>

record listing =
  l_path :: string
  l_page :: int
  l_page_size :: int
  l_contents :: "File list"
  l_total :: totals
  l_hide_dotfile :: string
  l_recursive :: bool

text \<open>
  A response: the status, the body (bytes, text, the JSON encoding of a dict, or the
  rendering of a listing), the \<^verbatim>\<open>mimetype\<close> argument where the code gives one,
  the headers the code adds and the cookies it sets (name, value, max-age).
\<close>

datatype content =
    Bytes "byte list"
  | Text string
  | Json "(string \<times> string) list"
  | Rendered listing

record response =
  status :: int
  body :: content
  mimetype :: "string option"
  added_headers :: "(string \<times> string) list"
  set_cookies :: "(string \<times> string \<times> int) list"

section \<open>Byte ranges\<close>

text \<open>\<^verbatim>\<open>str(n)\<close> for an integer, as \<^verbatim>\<open>"{0}".format(n)\<close> writes it.\<close>

fun str_nat :: "nat \<Rightarrow> string" where
  "str_nat n =
     (if n < 10 then [''0123456789'' ! n]
      else str_nat (n div 10) @ [''0123456789'' ! (n mod 10)])"

declare str_nat.simps [simp del]

definition str_int :: "int \<Rightarrow> string" where
  "str_int i = (if i < 0 then CHR ''-'' # str_nat (nat (- i)) else str_nat (nat i))"

text \<open>
  \<^verbatim>\<open>re.match(r"bytes=(?P<start>\d+)-(?P<end>\d+)?", range)\<close>: the header must
  begin with \<^verbatim>\<open>bytes=\<close>, one or more digits and a hyphen; the digits that follow the
  hyphen, if any, are the group \<^verbatim>\<open>end\<close>. Whatever comes after is not looked at.
  The result is the two groups, \<open>None\<close> when there is no match.
\<close>

definition strip_prefix :: "string \<Rightarrow> string \<Rightarrow> string option" where
  "strip_prefix pre s =
     (if take (length pre) s = pre then Some (drop (length pre) s) else None)"

definition range_match :: "string \<Rightarrow> (string \<times> string option) option" where
  "range_match r =
     (case strip_prefix ''bytes='' r of
        None \<Rightarrow> None
      | Some rest \<Rightarrow>
          (let ds = takeWhile is_digit rest
           in if ds = [] then None
              else (case dropWhile is_digit rest of
                      [] \<Rightarrow> None
                    | c # after \<Rightarrow>
                        if c = CHR ''-'' then
                          (let es = takeWhile is_digit after
                           in Some (ds, if es = [] then None else Some es))
                        else None)))"

definition get_range :: "request \<Rightarrow> error + int \<times> int option" where
  "get_range req =
     (case headers req ''Range'' of
        None \<Rightarrow> Inl TypeError
      | Some r \<Rightarrow>
          (case range_match r of
             Some (s, en) \<Rightarrow>
               (case py_int (PStr s) of
                  Inl er \<Rightarrow> Inl er
                | Inr start \<Rightarrow>
                    (case en of
                       None \<Rightarrow> Inr (start, None)
                     | Some t \<Rightarrow>
                         (case py_int (PStr t) of
                            Inl er \<Rightarrow> Inl er
                          | Inr end' \<Rightarrow> Inr (start, Some end'))))
           | None \<Rightarrow> Inr (0, None)))"

text \<open>
  \<^verbatim>\<open>fd.seek(start)\<close> followed by \<^verbatim>\<open>fd.read(length)\<close> on a file opened in binary
  mode, on a 64-bit platform. A negative position raises \<^verbatim>\<open>OSError\<close> and one that
  does not fit a signed 64-bit offset \<^verbatim>\<open>ValueError\<close>; a position past the end is
  accepted. A length below \<open>-1\<close> raises \<^verbatim>\<open>ValueError\<close>, one that does not fit a
  signed 64-bit size \<^verbatim>\<open>OverflowError\<close>; the length \<open>-1\<close> reads to the end of the
  file, and any other length reads that many bytes or the fewer that are left. Memory
  for the buffer is taken to be available.
\<close>

definition seek_read :: "byte list \<Rightarrow> int \<Rightarrow> int \<Rightarrow> error + byte list" where
  "seek_read bs start len =
     (if start < 0 then Inl OSError
      else if 2 ^ 63 \<le> start then Inl ValueError
      else if len < - 1 then Inl ValueError
      else if 2 ^ 63 \<le> len then Inl OverflowError
      else if len = - 1 then Inr (drop (nat start) bs)
      else Inr (take (nat len) (drop (nat start) bs)))"

text \<open>
  \<^verbatim>\<open>partial_response(path, start, end=None)\<close>. The size and the bytes are those of
  the file as it is during the request; \<^verbatim>\<open>os.path.getsize\<close> and \<^verbatim>\<open>open\<close> raise
  \<^verbatim>\<open>OSError\<close> where the file cannot be read. The \<^verbatim>\<open>assert\<close> statement is
  executed, as it is unless the interpreter runs with \<^verbatim>\<open>-O\<close>.
\<close>

definition partial_response :: "env \<Rightarrow> string \<Rightarrow> int \<Rightarrow> int option \<Rightarrow> error + response" where
  "partial_response e fpath start end' =
     (case file_bytes e fpath of
        None \<Rightarrow> Inl OSError
      | Some bs \<Rightarrow>
          (let file_size = int (length bs);
               end1 = (case end' of None \<Rightarrow> file_size - 1 | Some n \<Rightarrow> n);
               len = end1 - start + 1
           in (case seek_read bs start len of
                 Inl er \<Rightarrow> Inl er
               | Inr bytes \<Rightarrow>
                   if int (length bytes) \<noteq> len then Inl AssertionError
                   else Inr \<lparr>status = 206, body = Bytes bytes,
                             mimetype = guess_type e fpath,
                             added_headers =
                               [(''Content-Range'',
                                 ''bytes '' @ str_int start @ ''-'' @ str_int end1
                                   @ ''/'' @ str_int file_size),
                                (''Accept-Ranges'', ''bytes'')],
                             set_cookies = []\<rparr>)))"

text \<open>\<^verbatim>\<open>send_file(path)\<close> with the header the view adds to its result.\<close>

definition send_file :: "env \<Rightarrow> string \<Rightarrow> error + response" where
  "send_file e fpath =
     (case file_bytes e fpath of
        None \<Rightarrow> Inl OSError
      | Some bs \<Rightarrow>
          Inr \<lparr>status = 200, body = Bytes bs, mimetype = guess_type e fpath,
                added_headers = [(''Content-Disposition'', ''attachment'')],
                set_cookies = []\<rparr>)"

section \<open>The GET view\<close>

text \<open>
  \<^verbatim>\<open>get_page\<close> and \<^verbatim>\<open>get_page_size\<close>: \<^verbatim>\<open>int\<close> of the query argument, and the
  default when it raises \<^verbatim>\<open>ValueError\<close> or \<^verbatim>\<open>TypeError\<close>, the only exceptions
  \<open>py_int\<close> has.
\<close>

definition query_arg :: "request \<Rightarrow> string \<Rightarrow> pyval" where
  "query_arg req k = (case args req k of None \<Rightarrow> PNone | Some t \<Rightarrow> PStr t)"

definition get_page :: "request \<Rightarrow> int" where
  "get_page req = (case py_int (query_arg req ''page'') of Inl _ \<Rightarrow> 0 | Inr n \<Rightarrow> n)"

definition get_page_size :: "request \<Rightarrow> int" where
  "get_page_size req =
     (case py_int (query_arg req ''page_size'') of Inl _ \<Rightarrow> 100 | Inr n \<Rightarrow> n)"

text \<open>
  The directory branch of the view. \<open>hide_dotfile_arg\<close> is the query argument
  \<^verbatim>\<open>hide-dotfile\<close>, else the cookie of that name, else \<^verbatim>\<open>no\<close>; \<open>iterator\<close> is
  the enumeration the flag \<^verbatim>\<open>recursive\<close> selects.
\<close>

definition hide_dotfile_arg :: "request \<Rightarrow> string" where
  "hide_dotfile_arg req =
     (case args req ''hide-dotfile'' of
        Some v \<Rightarrow> v
      | None \<Rightarrow> (case cookies req ''hide-dotfile'' of Some v \<Rightarrow> v | None \<Rightarrow> ''no''))"

definition recursive_arg :: "request \<Rightarrow> bool" where
  "recursive_arg req = (args req ''recursive'' = Some ''yes'')"

definition iterator :: "env \<Rightarrow> bool \<Rightarrow> string \<Rightarrow> error + File list" where
  "iterator e recursive fpath =
     (if recursive then Inr (iter_recursive_files e fpath) else iter_files e fpath)"

definition list_directory :: "env \<Rightarrow> request \<Rightarrow> string \<Rightarrow> string \<Rightarrow> error + response" where
  "list_directory e req p fpath =
     (let hide_dotfile = hide_dotfile_arg req;
          recursive = recursive_arg req;
          sorting = args req ''sorting''
      in (case iterator e recursive fpath of
            Inl er \<Rightarrow> Inl er
          | Inr entries \<Rightarrow>
              (case collect hide_dotfile entries ([], total_init) of
                 Inl er \<Rightarrow> Inl er
               | Inr (contents, tot) \<Rightarrow>
                   (case sorted_contents e contents sorting of
                      Inl er \<Rightarrow> Inl er
                    | Inr ordered \<Rightarrow>
                        Inr \<lparr>status = 200,
                              body = Rendered
                                \<lparr>l_path = p, l_page = get_page req,
                                 l_page_size = get_page_size req,
                                 l_contents = paginate ordered (PInt (get_page req))
                                                (PInt (get_page_size req)),
                                 l_total = tot, l_hide_dotfile = hide_dotfile,
                                 l_recursive = recursive\<rparr>,
                              mimetype = None, added_headers = [],
                              set_cookies = [(''hide-dotfile'', hide_dotfile, 16070400)]\<rparr>))))"

definition get :: "env \<Rightarrow> request \<Rightarrow> string \<Rightarrow> error + response" where
  "get e req p =
     (let fpath = os_path_join (root_dir e) p
      in if isdir e fpath then list_directory e req p fpath
         else if isfile e fpath then
           (if headers req ''Range'' \<noteq> None then
              (case get_range req of
                 Inl er \<Rightarrow> Inl er
               | Inr (start, end') \<Rightarrow> partial_response e fpath start end')
            else send_file e fpath)
         else Inr \<lparr>status = 404, body = Text ''Not found'', mimetype = None,
                    added_headers = [], set_cookies = []\<rparr>)"

section \<open>Uploads\<close>

text \<open>
  Modelled from the spec: \<^verbatim>\<open>secure_filename\<close>, which the source imports from
  werkzeug (line 20) and does not define. The spec has the upload handler "sanitize
  the supplied filename (strip path separators and other characters unsafe for a bare
  filename)", so that \<^verbatim>\<open>../../etc/passwd\<close> is stored under a name without a
  path-traversal sequence. The steps are those of the library function on a POSIX
  system: the text is reduced to the ASCII part of its compatibility decomposition,
  every separator becomes a space, the words between whitespace are joined with
  \<^verbatim>\<open>_\<close>, every character outside \<^verbatim>\<open>A-Za-z0-9_.-\<close> is removed, and dots and
  underscores are stripped from both ends.
\<close>

definition safe_char :: "char \<Rightarrow> bool" where
  "safe_char c =
     (c \<in> set ''ABCDEFGHIJKLMNOPQRSTUVWXYZabcdefghijklmnopqrstuvwxyz0123456789_.-'')"

definition strip_chars :: "string \<Rightarrow> string \<Rightarrow> string" where
  "strip_chars cs s =
     rev (dropWhile (\<lambda>c. c \<in> set cs) (rev (dropWhile (\<lambda>c. c \<in> set cs) s)))"

fun join_with :: "string \<Rightarrow> string list \<Rightarrow> string" where
  "join_with sep [] = []"
| "join_with sep [w] = w"
| "join_with sep (w # v # ws) = w @ sep @ join_with sep (v # ws)"

definition split_words :: "string \<Rightarrow> string list" where
  "split_words s = filter (\<lambda>w. w \<noteq> []) (split_on is_space s)"

definition secure_filename :: "env \<Rightarrow> string \<Rightarrow> string" where
  "secure_filename e fname =
     (let f1 = nfkd_ascii e fname;
          f2 = map (\<lambda>c. if c = CHR ''/'' then CHR '' '' else c) f1;
          f3 = join_with ''_'' (split_words f2);
          f4 = filter safe_char f3
      in strip_chars ''._'' f4)"

text \<open>
  \<^verbatim>\<open>file.save(dst)\<close> opens \<open>dst\<close> for writing and copies the stream. The files
  on disk are a map from paths to bytes. Opening the empty path or a destination that
  ends with the separator (it names a directory) always fails; elsewhere the
  surroundings decide. The result is the message of the exception or the files after
  the write. The two fixed messages are given without the escapes \<^verbatim>\<open>repr\<close> would
  add to the path.
\<close>

type_synonym store = "string \<Rightarrow> byte list option"

definition save :: "env \<Rightarrow> store \<Rightarrow> string \<Rightarrow> byte list \<Rightarrow> string + store" where
  "save e disk dst bs =
     (if dst = [] then
        Inl (''[Errno 2] No such file or directory: '' @ [CHR 39, CHR 39])
      else if last dst = CHR ''/'' then
        Inl (''[Errno 21] Is a directory: '' @ [CHR 39] @ dst @ [CHR 39])
      else (case save_error e dst of
              Some msg \<Rightarrow> Inl msg
            | None \<Rightarrow> Inr (disk(dst \<mapsto> bs))))"

text \<open>
  The loop \<^verbatim>\<open>for file in files\<close> of the POST view with the dict \<^verbatim>\<open>info\<close> and the
  files on disk: every exception of the body is caught and recorded, and the loop
  goes on.
\<close>

type_synonym info = "(string \<times> string) list"

fun save_files :: "env \<Rightarrow> string \<Rightarrow> upload list \<Rightarrow> info \<times> store \<Rightarrow> info \<times> store" where
  "save_files e fpath [] acc = acc"
| "save_files e fpath (u # us) (info, disk) =
     (let fname = secure_filename e (filename u)
      in (case save e disk (os_path_join fpath fname) (stream u) of
            Inl msg \<Rightarrow>
              save_files e fpath us
                (AList.update ''msg'' msg (AList.update ''status'' ''error'' info), disk)
          | Inr disk' \<Rightarrow>
              save_files e fpath us
                (AList.update ''msg'' ''File Saved''
                   (AList.update ''status'' ''success'' info), disk')))"

definition post :: "env \<Rightarrow> request \<Rightarrow> string \<Rightarrow> response \<times> store" where
  "post e req p =
     (let fpath = os_path_join (root_dir e) p;
          (info, disk) =
            (if isdir e fpath then save_files e fpath (files req) ([], file_bytes e)
             else (AList.update ''msg'' ''Invalid Operation''
                     (AList.update ''status'' ''error'' []), file_bytes e))
      in (\<lparr>status = 200, body = Json info, mimetype = None,
           added_headers = [(''Content-type'', ''application/json'')],
           set_cookies = []\<rparr>, disk))"

section \<open>Vocabulary of the properties\<close>

text \<open>
  The entries a listing keeps: not on the deny-list, not hidden when dotfiles are
  hidden, and with metadata that could be read; the size of an entry, and the number
  of entries of one kind.
\<close>

definition listed :: "string \<Rightarrow> File \<Rightarrow> bool" where
  "listed hide_dotfile f =
     (\<not> File_ignored f \<and> \<not> (hide_dotfile = ''yes'' \<and> File_hidden f) \<and> stat f \<noteq> None)"

definition entry_size :: "File \<Rightarrow> int" where
  "entry_size f = (case stat f of None \<Rightarrow> 0 | Some s \<Rightarrow> st_size s)"

definition count_type :: "string \<Rightarrow> File list \<Rightarrow> int" where
  "count_type t fs = int (length (filter (\<lambda>f. File_type f = Inr t) fs))"

text \<open>
  What it is for \<open>ys\<close> to be \<open>xs\<close> sorted stably by the key \<open>k\<close>: the same
  entries; no entry is followed by one whose key is smaller (larger, when reversed);
  and the entries of any one key value are in the order they had in \<open>xs\<close>.
\<close>

definition stable_sorted :: "('a \<Rightarrow> pyval) \<Rightarrow> bool \<Rightarrow> 'a list \<Rightarrow> 'a list \<Rightarrow> bool" where
  "stable_sorted k r xs ys =
     (mset ys = mset xs
      \<and> sorted_wrt (\<lambda>a b. if r then py_lt (k a) (k b) = Inr False
                            else py_lt (k b) (k a) = Inr False) ys
      \<and> (\<forall>v. filter (\<lambda>f. k f = v) ys = filter (\<lambda>f. k f = v) xs))"


section \<open>Example surroundings\<close>

text \<open>
  A regular file (mode \<^verbatim>\<open>0o100644\<close>) or a directory (mode \<^verbatim>\<open>0o040755\<close>) of a
  given size and modification time.
\<close>

definition ex_stat :: "int \<Rightarrow> int \<Rightarrow> real \<Rightarrow> stat_result" where
  "ex_stat mode sz mt =
     \<lparr>st_mode = mode, st_ino = 1, st_dev = 1, st_nlink = 1, st_uid = 0, st_gid = 0,
      st_size = sz, st_atime_sec = 0, st_mtime_sec = 0, st_ctime_sec = 0, st_mtime = mt\<rparr>"

definition ex_file :: "string \<Rightarrow> int \<Rightarrow> File" where
  "ex_file nm sz =
     \<lparr>path = ''/srv/files/'' @ nm, name = nm, stat = Some (ex_stat 33188 sz 0)\<rparr>"

definition ex_dir :: "string \<Rightarrow> File" where
  "ex_dir nm =
     \<lparr>path = ''/srv/files/'' @ nm, name = nm, stat = Some (ex_stat 16877 4096 0)\<rparr>"

definition ex_unreadable :: "string \<Rightarrow> File" where
  "ex_unreadable nm = \<lparr>path = ''/srv/files/'' @ nm, name = nm, stat = None\<rparr>"

text \<open>
  A server rooted at \<^verbatim>\<open>/srv/files\<close>, which holds the entries above, among them a
  text file of three bytes and a file of a thousand bytes; a file \<^verbatim>\<open>/etc/passwd\<close>
  lies outside the root.
\<close>

definition ex_entries :: "File list" where
  "ex_entries =
     [ex_file ''abc.txt'' 3, ex_file ''big.bin'' 1000, ex_dir ''docs'',
      ex_unreadable ''gone'', ex_dir ''.git'', ex_file ''.profile'' 7]"

text \<open>
  The outcome of \<^verbatim>\<open>os.stat\<close> for these entries: the first attempt on \<^verbatim>\<open>docs\<close>
  fails and the second succeeds; every attempt on \<^verbatim>\<open>gone\<close> fails.
\<close>

definition ex_os_stat :: "string \<Rightarrow> nat \<Rightarrow> stat_result option" where
  "ex_os_stat p n =
     (case find (\<lambda>f. path f = p) ex_entries of
        None \<Rightarrow> None
      | Some f \<Rightarrow> if name f = ''docs'' \<and> n = 0 then None else stat f)"

definition ex_bytes :: "string \<Rightarrow> byte list option" where
  "ex_bytes p =
     (if p = ''/srv/files/abc.txt'' then Some [97, 98, 99]
      else if p = ''/srv/files/big.bin'' then Some (replicate 1000 7)
      else if p = ''/srv/files/../../etc/passwd'' then Some [114, 111, 111, 116]
      else None)"

definition ex_env :: env where
  "ex_env =
     \<lparr>root_dir = ''/srv/files'',
      isdir = (\<lambda>p. p \<in> set [''/srv/files'', ''/srv/files/'', ''/srv/files/docs'']),
      isfile = (\<lambda>p. ex_bytes p \<noteq> None),
      listdir = (\<lambda>p. if p \<in> set [''/srv/files'', ''/srv/files/'']
                       then Some (map name ex_entries) else None),
      walk = (\<lambda>p. []),
      os_stat = ex_os_stat,
      file_bytes = ex_bytes,
      guess_type = (\<lambda>p. None),
      object_attrs = [''__module__'' \<mapsto> PStr ''__main__'', ''__doc__'' \<mapsto> PNone],
      nfkd_ascii = filter (\<lambda>c. (of_char c :: nat) < 128),
      save_error = (\<lambda>p. None)\<rparr>"

definition ex_request :: "string option \<Rightarrow> request" where
  "ex_request hdr =
     \<lparr>args = (\<lambda>k. None), cookies = (\<lambda>k. None),
      headers = (\<lambda>k. if k = ''Range'' then hdr else None), files = []\<rparr>"

definition ex_sizes :: "File list" where
  "ex_sizes = [ex_file ''a'' 10, ex_file ''b'' 5, ex_file ''c'' 20]"

definition ex_ties :: "File list" where
  "ex_ties = [ex_file ''a'' 10, ex_file ''b'' 5, ex_file ''c'' 10]"

section \<open>Properties of pagination\<close>

lemma slice_bound_nonneg: "0 \<le> i \<Longrightarrow> slice_bound n i = min (nat i) n"
  by (simp add: slice_bound_def)

lemma py_slice_nonneg:
  assumes "0 \<le> a" and "0 \<le> k"
  shows "py_slice xs a (a + k) = take (nat k) (drop (nat a) xs)"
proof (cases "nat a \<le> length xs")
  case True
  have "min (nat (a + k)) (length xs) - nat a = min (nat k) (length xs - nat a)"
    using assms True by (simp add: nat_add_distrib min_def)
  moreover have "take (min (nat k) (length xs - nat a)) (drop (nat a) xs)
                 = take (nat k) (drop (nat a) xs)"
    by (cases "nat k \<le> length xs - nat a") (simp_all add: min_def)
  ultimately show ?thesis
    using assms True by (simp add: py_slice_def slice_bound_nonneg Let_def min_absorb1)
next
  case False
  then show ?thesis
    using assms by (simp add: py_slice_def slice_bound_nonneg Let_def)
qed

text \<open>
  Claim C5. For a page index \<open>p \<ge> 0\<close> and a page size \<open>s > 0\<close>, \<open>paginate\<close> returns
  the entries at the positions \<open>p * s \<le> i < p * s + s\<close> that exist in the list, in
  order: at most \<open>s\<close> entries after the first \<open>p * s\<close>. A page that starts at or
  after the end of the list is empty; no input makes the function raise.
\<close>

theorem paginate_is_clamped_slice:
  assumes "0 \<le> p" and "0 < s"
  shows "paginate xs (PInt p) (PInt s) = take (nat s) (drop (nat (p * s)) xs)
         \<and> (int (length xs) \<le> p * s \<longrightarrow> paginate xs (PInt p) (PInt s) = [])"
proof -
  have ps: "0 \<le> p * s"
    using assms by simp
  have eq: "paginate xs (PInt p) (PInt s) = take (nat s) (drop (nat (p * s)) xs)"
    using ps assms by (simp add: paginate_def py_int_def Let_def py_slice_nonneg)
  have "int (length xs) \<le> p * s \<Longrightarrow> drop (nat (p * s)) xs = []"
    by simp
  with eq show ?thesis
    by simp
qed

theorem paginate_is_clamped_slice_witness:
  "(0::int) \<le> 1 \<and> (0::int) < 2
   \<and> paginate [10, 20, 30 :: nat] (PInt 1) (PInt 2) = [30]
   \<and> paginate [10, 20, 30 :: nat] (PInt 2) (PInt 2) = []"
  using paginate_is_clamped_slice [of 1 2 "[10, 20, 30 :: nat]"]
        paginate_is_clamped_slice [of 2 2 "[10, 20, 30 :: nat]"]
  by simp

section \<open>Sorting and paging keep to the entries given\<close>

lemma py_insort_mset: "py_insort k x ys = Inr zs \<Longrightarrow> mset zs = add_mset x (mset ys)"
  by (induction ys arbitrary: zs) (auto split: sum.splits if_splits)

lemma py_sort_mset: "py_sort k xs = Inr ys \<Longrightarrow> mset ys = mset xs"
  by (induction xs arbitrary: ys) (auto split: sum.splits dest: py_insort_mset)

lemma py_sorted_set: "py_sorted k r xs = Inr ys \<Longrightarrow> set ys = set xs"
  by (auto simp: py_sorted_def split: if_splits sum.splits dest!: py_sort_mset mset_eq_setD)

lemma sorted_contents_set: "sorted_contents e xs s = Inr ys \<Longrightarrow> set ys = set xs"
  by (auto simp: sorted_contents_def Let_def split: option.splits if_splits dest: py_sorted_set)

lemma py_slice_subset: "set (py_slice xs a b) \<subseteq> set xs"
  unfolding py_slice_def Let_def
  by (meson set_take_subset set_drop_subset subset_trans)

lemma paginate_subset: "set (paginate xs pg ps) \<subseteq> set xs"
  by (auto simp: paginate_def Let_def split: sum.splits dest: subsetD [OF py_slice_subset])

section \<open>Properties of sorting\<close>

lemma py_insort_insort_key:
  fixes g :: "'a \<Rightarrow> 'b::linorder"
  assumes "\<And>y. y \<in> set ys \<Longrightarrow> py_lt (k y) (k x) = Inr (g y < g x)"
  shows "py_insort k x ys = Inr (insort_key g x ys)"
  using assms by (induction ys) (auto simp: not_less)

lemma py_sort_sort_key:
  fixes g :: "'a \<Rightarrow> 'b::linorder"
  assumes "\<And>x y. x \<in> set xs \<Longrightarrow> y \<in> set xs \<Longrightarrow> py_lt (k x) (k y) = Inr (g x < g y)"
  shows "py_sort k xs = Inr (sort_key g xs)"
  using assms
proof (induction xs)
  case Nil
  then show ?case by simp
next
  case (Cons x xs)
  have "py_sort k xs = Inr (sort_key g xs)"
    using Cons by simp
  moreover have "py_insort k x (sort_key g xs) = Inr (insort_key g x (sort_key g xs))"
    by (rule py_insort_insort_key) (simp add: Cons.prems)
  ultimately show ?case by simp
qed

lemma py_sorted_sort_key:
  fixes g :: "'a \<Rightarrow> 'b::linorder"
  assumes "\<And>x y. x \<in> set xs \<Longrightarrow> y \<in> set xs \<Longrightarrow> py_lt (k x) (k y) = Inr (g x < g y)"
  shows "py_sorted k r xs = Inr (if r then rev (sort_key g (rev xs)) else sort_key g xs)"
proof -
  have "py_sort k (rev xs) = Inr (sort_key g (rev xs))"
    by (rule py_sort_sort_key) (simp add: assms)
  moreover have "py_sort k xs = Inr (sort_key g xs)"
    by (rule py_sort_sort_key) (simp add: assms)
  ultimately show ?thesis by (simp add: py_sorted_def)
qed

lemma stable_sorted_generic:
  fixes g :: "'a \<Rightarrow> 'b::linorder" and c :: "'b \<Rightarrow> pyval"
  assumes inj: "inj c"
    and lt: "\<And>a b. py_lt (c a) (c b) = Inr (a < b)"
    and key: "\<And>x. x \<in> set xs \<Longrightarrow> k x = c (g x)"
  shows "\<exists>ys. py_sorted k r xs = Inr ys \<and> stable_sorted k r xs ys"
proof -
  define ys where "ys = (if r then rev (sort_key g (rev xs)) else sort_key g xs)"
  have res: "py_sorted k r xs = Inr ys"
    unfolding ys_def by (rule py_sorted_sort_key) (simp add: key lt)
  have ms: "mset ys = mset xs"
    by (simp add: ys_def)
  then have sets: "set ys = set xs"
    by (rule mset_eq_setD)
  have keq: "\<And>x v. x \<in> set xs \<Longrightarrow> (k x = c v) = (g x = v)"
    using inj key by (auto dest: injD)
  have stab_g: "\<And>v. filter (\<lambda>f. g f = v) ys = filter (\<lambda>f. g f = v) xs"
    by (simp add: ys_def rev_filter [symmetric] sort_key_stable)
  have stab: "filter (\<lambda>f. k f = v) ys = filter (\<lambda>f. k f = v) xs" for v
  proof (cases "v \<in> range c")
    case True
    then obtain w where v: "v = c w" by blast
    have "filter (\<lambda>f. k f = v) ys = filter (\<lambda>f. g f = w) ys"
      by (rule filter_cong) (simp_all add: v keq sets)
    also have "\<dots> = filter (\<lambda>f. g f = w) xs" by (rule stab_g)
    also have "\<dots> = filter (\<lambda>f. k f = v) xs"
      by (rule filter_cong) (simp_all add: v keq)
    finally show ?thesis .
  next
    case False
    then have "\<And>x. x \<in> set xs \<Longrightarrow> k x \<noteq> v"
      using key by auto
    then show ?thesis
      by (simp add: sets filter_empty_conv [THEN iffD2])
  qed
  have ord: "sorted_wrt (\<lambda>a b. if r then py_lt (k a) (k b) = Inr False
                            else py_lt (k b) (k a) = Inr False) ys"
  proof (cases r)
    case False
    have "sorted (map g ys)" using False by (simp add: ys_def)
    then have "sorted_wrt (\<lambda>a b. g a \<le> g b) ys"
      by (simp add: sorted_map)
    then have "sorted_wrt (\<lambda>a b. py_lt (k b) (k a) = Inr False) ys"
      by (rule sorted_wrt_mono_rel [rotated]) (simp add: key lt sets not_less)
    with False show ?thesis by simp
  next
    case True
    have "sorted (map g (rev ys))" using True by (simp add: ys_def)
    then have "sorted_wrt (\<lambda>a b. g a \<le> g b) (rev ys)"
      by (simp add: sorted_map)
    then have "sorted_wrt (\<lambda>a b. g b \<le> g a) ys"
      by (simp add: sorted_wrt_rev)
    then have "sorted_wrt (\<lambda>a b. py_lt (k a) (k b) = Inr False) ys"
      by (rule sorted_wrt_mono_rel [rotated]) (simp add: key lt sets not_less)
    with True show ?thesis by simp
  qed
  from res ms ord stab show ?thesis
    by (auto simp: stable_sorted_def)
qed


lemma sorted_contents_plain:
  assumes "key \<noteq> []" and "hd key \<noteq> CHR ''-''"
  shows "sorted_contents e contents (Some key)
           = py_sorted (\<lambda>f. getattr_File e f key) False contents"
    and "sorted_contents e contents (Some (CHR ''-'' # key))
           = py_sorted (\<lambda>f. getattr_File e f key) True contents"
proof -
  from assms obtain c cs where k: "key = c # cs" "c \<noteq> CHR ''-''"
    by (cases key) auto
  show "sorted_contents e contents (Some key)
           = py_sorted (\<lambda>f. getattr_File e f key) False contents"
    by (simp add: sorted_contents_def k)
  show "sorted_contents e contents (Some (CHR ''-'' # key))
           = py_sorted (\<lambda>f. getattr_File e f key) True contents"
    by (simp add: sorted_contents_def k)
qed

lemma inj_PStr: "inj PStr" by (simp add: inj_def)
lemma inj_PInt: "inj PInt" by (simp add: inj_def)
lemma inj_PFloat: "inj PFloat" by (simp add: inj_def)

lemma supported_key_sorted:
  assumes readable: "\<forall>f \<in> set contents. stat f \<noteq> None"
    and key: "key \<in> set [''name'', ''type'', ''size'', ''mtime'']"
  shows "\<exists>ys. py_sorted (\<lambda>f. getattr_File e f key) r contents = Inr ys
              \<and> stable_sorted (\<lambda>f. getattr_File e f key) r contents ys"
proof -
  consider "key = ''name''" | "key = ''type''" | "key = ''size''" | "key = ''mtime''"
    using key by auto
  then show ?thesis
  proof cases
    case 1
    show ?thesis
      by (rule stable_sorted_generic [where c = PStr and g = name])
         (simp_all add: inj_PStr getattr_File_def 1)
  next
    case 2
    show ?thesis
      by (rule stable_sorted_generic
            [where c = PStr and g = "\<lambda>f. case File_type f of Inl _ \<Rightarrow> [] | Inr t \<Rightarrow> t"])
         (use readable in \<open>auto simp: inj_PStr getattr_File_def 2 File_type_def
                              split: option.splits\<close>)
  next
    case 3
    show ?thesis
      by (rule stable_sorted_generic [where c = PInt and g = entry_size])
         (use readable in \<open>auto simp: inj_PInt getattr_File_def 3 File_size_def entry_size_def
                              split: option.splits\<close>)
  next
    case 4
    show ?thesis
      by (rule stable_sorted_generic
            [where c = PFloat and g = "\<lambda>f. case stat f of None \<Rightarrow> 0 | Some s \<Rightarrow> st_mtime s"])
         (use readable in \<open>auto simp: inj_PFloat getattr_File_def 4 File_mtime_def
                              split: option.splits\<close>)
  qed
qed

text \<open>
  Claim C7. For entries with readable metadata and each of the sort keys \<^verbatim>\<open>name\<close>,
  \<^verbatim>\<open>type\<close>, \<^verbatim>\<open>size\<close> and \<^verbatim>\<open>mtime\<close>, \<open>sorted_contents\<close> returns a stable
  sort of the collection, ascending for the key itself and descending for the key
  with a leading \<^verbatim>\<open>-\<close>: entries whose keys are equal keep their input order in
  both directions.
\<close>

theorem sorted_contents_stable:
  assumes "\<forall>f \<in> set contents. stat f \<noteq> None"
    and "key \<in> set [''name'', ''type'', ''size'', ''mtime'']"
  shows "(\<exists>ys. sorted_contents e contents (Some key) = Inr ys
               \<and> stable_sorted (\<lambda>f. getattr_File e f key) False contents ys)
       \<and> (\<exists>ys. sorted_contents e contents (Some (CHR ''-'' # key)) = Inr ys
               \<and> stable_sorted (\<lambda>f. getattr_File e f key) True contents ys)"
proof -
  have "key \<noteq> []" and "hd key \<noteq> CHR ''-''"
    using assms(2) by auto
  then show ?thesis
    using supported_key_sorted [OF assms, of e]
    by (simp add: sorted_contents_plain)
qed

theorem sorted_contents_stable_witness:
  "None \<notin> set (map stat ex_sizes)
   \<and> ''size'' \<in> set [''name'', ''type'', ''size'', ''mtime'']
   \<and> sorted_contents ex_env ex_sizes (Some ''-size'')
       = Inr [ex_file ''c'' 20, ex_file ''a'' 10, ex_file ''b'' 5]
   \<and> stable_sorted (\<lambda>f. getattr_File ex_env f ''size'') True ex_sizes
       [ex_file ''c'' 20, ex_file ''a'' 10, ex_file ''b'' 5]"
proof -
  have h1: "\<forall>f \<in> set ex_sizes. stat f \<noteq> None"
    by (simp add: ex_sizes_def ex_file_def)
  have h2: "''size'' \<in> set [''name'', ''type'', ''size'', ''mtime'']"
    by simp
  have ev: "sorted_contents ex_env ex_sizes (Some ''-size'')
              = Inr [ex_file ''c'' 20, ex_file ''a'' 10, ex_file ''b'' 5]"
    by (simp add: sorted_contents_def py_sorted_def getattr_File_def File_size_def
          ex_sizes_def ex_file_def ex_stat_def Let_def)
  have h1': "None \<notin> set (map stat ex_sizes)"
    by (simp add: ex_sizes_def ex_file_def)
  from sorted_contents_stable [OF h1 h2, of ex_env] ev h1' h2 show ?thesis
    by auto
qed







section \<open>Properties of the listing\<close>

lemma map_of_update: "map_of (AList.update k v al) = (map_of al)(k \<mapsto> v)"
  by (rule update_conv')

lemma File_type_cases:
  "stat f \<noteq> None \<Longrightarrow> File_type f = Inr ''dir'' \<or> File_type f = Inr ''file''"
  by (auto simp: File_type_def split: option.splits)

lemma count_entry_ok:
  assumes "stat f \<noteq> None"
    and "map_of tot ''size'' = Some a"
    and "map_of tot ''dir'' = Some b"
    and "map_of tot ''file'' = Some c"
  shows "\<exists>tot'. count_entry tot f = Inr tot'
           \<and> map_of tot' ''size'' = Some (a + entry_size f)
           \<and> map_of tot' ''dir'' = Some (b + count_type ''dir'' [f])
           \<and> map_of tot' ''file'' = Some (c + count_type ''file'' [f])"
  using assms File_type_cases [OF assms(1)]
  by (auto simp: count_entry_def map_of_update File_size_def entry_size_def count_type_def Let_def)

lemma collect_general:
  assumes "map_of tot ''size'' = Some a"
    and "map_of tot ''dir'' = Some b"
    and "map_of tot ''file'' = Some c"
  shows "\<exists>tot'. collect h fs (acc, tot) = Inr (acc @ filter (listed h) fs, tot')
           \<and> map_of tot' ''size'' = Some (a + sum_list (map entry_size (filter (listed h) fs)))
           \<and> map_of tot' ''dir'' = Some (b + count_type ''dir'' (filter (listed h) fs))
           \<and> map_of tot' ''file'' = Some (c + count_type ''file'' (filter (listed h) fs))"
  using assms
proof (induction fs arbitrary: acc tot a b c)
  case Nil
  then show ?case by (simp add: count_type_def)
next
  case (Cons f fs)
  show ?case
  proof (cases "listed h f")
    case False
    then have "collect h (f # fs) (acc, tot) = collect h fs (acc, tot)"
      by (auto simp: listed_def)
    with Cons.IH [OF Cons.prems] False show ?thesis
      by simp
  next
    case True
    then have st: "stat f \<noteq> None" by (simp add: listed_def)
    from count_entry_ok [OF st Cons.prems] obtain tot1 where
      t1: "count_entry tot f = Inr tot1"
      "map_of tot1 ''size'' = Some (a + entry_size f)"
      "map_of tot1 ''dir'' = Some (b + count_type ''dir'' [f])"
      "map_of tot1 ''file'' = Some (c + count_type ''file'' [f])"
      by blast
    have step: "collect h (f # fs) (acc, tot) = collect h fs (acc @ [f], tot1)"
      using True t1(1) by (auto simp: listed_def)
    from Cons.IH [OF t1(2-4), of "acc @ [f]"] True step show ?thesis
      by (auto simp: count_type_def)
  qed
qed

text \<open>
  Claim C8. The loop of the directory branch never raises. From the entries the
  iterator yields it keeps exactly those that are not on the deny-list, not hidden
  when dotfiles are hidden, and whose metadata could be read; an entry whose metadata
  cannot be read is not among them. The totals are the sum of the sizes of the kept
  entries and the numbers of directories and of files among them, and the listing the
  view emits shows these totals and only kept entries.
\<close>

theorem listing_skips_unreadable:
  "\<exists>tot. collect h fs ([], total_init) = Inr (filter (listed h) fs, tot)
      \<and> map_of tot ''size'' = Some (sum_list (map entry_size (filter (listed h) fs)))
      \<and> map_of tot ''dir'' = Some (count_type ''dir'' (filter (listed h) fs))
      \<and> map_of tot ''file'' = Some (count_type ''file'' (filter (listed h) fs))
      \<and> (\<forall>f \<in> set fs. stat f = None \<longrightarrow> f \<notin> set (filter (listed h) fs))
      \<and> (\<forall>e req p fpath r.
            iterator e (recursive_arg req) fpath = Inr fs
            \<and> hide_dotfile_arg req = h
            \<and> list_directory e req p fpath = Inr r
            \<longrightarrow> (\<exists>l. body r = Rendered l \<and> l_total l = tot
                      \<and> set (l_contents l) \<subseteq> set (filter (listed h) fs)))"
proof -
  from collect_general [of total_init 0 0 0 h fs "[]"] obtain tot where
    c: "collect h fs ([], total_init) = Inr (filter (listed h) fs, tot)"
    and t: "map_of tot ''size'' = Some (sum_list (map entry_size (filter (listed h) fs)))"
       "map_of tot ''dir'' = Some (count_type ''dir'' (filter (listed h) fs))"
       "map_of tot ''file'' = Some (count_type ''file'' (filter (listed h) fs))"
    by (auto simp: total_init_def)
  have u: "\<forall>f \<in> set fs. stat f = None \<longrightarrow> f \<notin> set (filter (listed h) fs)"
    by (simp add: listed_def)
  have v: "\<exists>l. body r = Rendered l \<and> l_total l = tot
                \<and> set (l_contents l) \<subseteq> set (filter (listed h) fs)"
    if "iterator e (recursive_arg req) fpath = Inr fs" "hide_dotfile_arg req = h"
       "list_directory e req p fpath = Inr r" for e req p fpath r
  proof -
    from that c obtain ordered where
      o: "sorted_contents e (filter (listed h) fs) (args req ''sorting'') = Inr ordered"
      and r: "r = \<lparr>status = 200,
                   body = Rendered
                     \<lparr>l_path = p, l_page = get_page req, l_page_size = get_page_size req,
                      l_contents = paginate ordered (PInt (get_page req))
                                     (PInt (get_page_size req)),
                      l_total = tot, l_hide_dotfile = h,
                      l_recursive = recursive_arg req\<rparr>,
                   mimetype = None, added_headers = [],
                   set_cookies = [(''hide-dotfile'', h, 16070400)]\<rparr>"
      by (auto simp: list_directory_def Let_def split: sum.splits)
    from sorted_contents_set [OF o] paginate_subset [of ordered] show ?thesis
      by (simp add: r)
  qed
  from c t u v show ?thesis by blast
qed


theorem listing_skips_unreadable_witness:
  "\<exists>tot. collect ''no'' ex_entries ([], total_init)
            = Inr ([ex_file ''abc.txt'' 3, ex_file ''big.bin'' 1000, ex_dir ''docs'',
                    ex_file ''.profile'' 7], tot)
      \<and> map_of tot ''size'' = Some 5106
      \<and> map_of tot ''dir'' = Some 1
      \<and> map_of tot ''file'' = Some 3
      \<and> ex_unreadable ''gone'' \<in> set ex_entries
      \<and> stat (ex_unreadable ''gone'') = None
      \<and> iterator ex_env (recursive_arg (ex_request None)) ''/srv/files/'' = Inr ex_entries
      \<and> hide_dotfile_arg (ex_request None) = ''no''
      \<and> (\<exists>r l. list_directory ex_env (ex_request None) [] ''/srv/files/'' = Inr r
                \<and> body r = Rendered l \<and> l_total l = tot
                \<and> set (l_contents l)
                    \<subseteq> {ex_file ''abc.txt'' 3, ex_file ''big.bin'' 1000, ex_dir ''docs'',
                        ex_file ''.profile'' 7})"
proof -
  let ?kept = "[ex_file ''abc.txt'' 3, ex_file ''big.bin'' 1000, ex_dir ''docs'',
                ex_file ''.profile'' 7]"
  have kept: "filter (listed ''no'') ex_entries = ?kept"
    by (simp add: listed_def File_ignored_def ignored_def File_hidden_def ex_entries_def
          ex_file_def ex_dir_def ex_unreadable_def)
  have sz: "sum_list (map entry_size ?kept) = 5106"
    by (simp add: entry_size_def ex_file_def ex_dir_def ex_stat_def)
  have nd: "count_type ''dir'' ?kept = 1" and nf: "count_type ''file'' ?kept = 3"
    by (simp_all add: count_type_def File_type_def S_ISDIR_def S_ISLNK_def S_IFMT_def
          ex_file_def ex_dir_def ex_stat_def)
  have gone: "ex_unreadable ''gone'' \<in> set ex_entries" "stat (ex_unreadable ''gone'') = None"
    by (simp_all add: ex_entries_def ex_unreadable_def)
  have it: "iterator ex_env (recursive_arg (ex_request None)) ''/srv/files/'' = Inr ex_entries"
    by code_simp
  have hd: "hide_dotfile_arg (ex_request None) = ''no''"
    by code_simp
  have "\<not> isl (list_directory ex_env (ex_request None) [] ''/srv/files/'')"
    by code_simp
  then obtain r where r: "list_directory ex_env (ex_request None) [] ''/srv/files/'' = Inr r"
    by (cases "list_directory ex_env (ex_request None) [] ''/srv/files/''") auto
  from listing_skips_unreadable [of "''no''" ex_entries] obtain tot where
    c: "collect ''no'' ex_entries ([], total_init) = Inr (?kept, tot)"
    and t: "map_of tot ''size'' = Some 5106" "map_of tot ''dir'' = Some 1"
       "map_of tot ''file'' = Some 3"
    and v: "\<forall>e req p fpath r.
              iterator e (recursive_arg req) fpath = Inr ex_entries
              \<and> hide_dotfile_arg req = ''no''
              \<and> list_directory e req p fpath = Inr r
              \<longrightarrow> (\<exists>l. body r = Rendered l \<and> l_total l = tot
                        \<and> set (l_contents l) \<subseteq> set ?kept)"
    unfolding kept sz nd nf by (elim exE conjE) blast
  from v it hd r obtain l where
    "body r = Rendered l" "l_total l = tot" "set (l_contents l) \<subseteq> set ?kept"
    by blast
  with c t gone it hd r show ?thesis
    by auto
qed

end
